theory Spec2Isabelle
  imports Main "HOL-Library.Word"
begin

section \<open>Values, errors and string primitives\<close>

text \<open>
  The Python values that reach the formatting code. A float is kept as its IEEE-754
  binary64 bit pattern; float arithmetic is never computed here, it is supplied by the
  record of external helpers further down.
\<close>

datatype pyval =
    PNone
  | PBool bool
  | PInt int
  | PFloat "64 word"
  | PStr string

text \<open>
  \<open>error.UserError\<close> is raised with four different messages in
  \<open>torrent/formatting.py\<close>; each constructor keeps the values interpolated into one
  of them.
\<close>

datatype user_error =
    UnknownFormattingSpec string string
  | UnknownField string
  | UnknownFormatSpecification string string
  | UnknownFieldName string

text \<open>
  The exceptions of the model. \<open>LoggableError key val exc\<close> stands for the message
  \<open>"While formatting %s=%r: %s" % (key, val, exc)\<close>, and \<open>TemplateError exc\<close> for the
  diagnostic of \<open>expand_template\<close>. \<open>NotModelled\<close> is no Python exception: it marks
  the operations on floats that the model does not compute.
\<close>

datatype pyerr =
    TypeError
  | ValueError
  | KeyError
  | IndexError
  | AttributeError
  | NameError string
  | UnboundLocalError string
  | OSError
  | OverflowError
  | UserError user_error
  | LoggableError string pyval pyerr
  | TemplateError pyerr
  | NotModelled

text \<open>Sequencing of calls that may raise: the first exception wins.\<close>

fun and_then :: "pyerr + 'a \<Rightarrow> ('a \<Rightarrow> pyerr + 'b) \<Rightarrow> pyerr + 'b" where
  "and_then (Inl e) f = Inl e"
| "and_then (Inr v) f = f v"

text \<open>
  Strings are byte strings here, so the model covers ASCII text. \<open>is_space\<close> is what
  \<open>str.split()\<close> and \<open>str.strip()\<close> treat as whitespace in that range.
\<close>

definition is_space :: "char \<Rightarrow> bool" where
  "is_space c = (let n = (of_char c :: nat) in (9 \<le> n \<and> n \<le> 13) \<or> (28 \<le> n \<and> n \<le> 32))"

text \<open>\<open>s.replace(",", " ")\<close>\<close>

definition replace_comma :: "string \<Rightarrow> string" where
  "replace_comma s = map (\<lambda>c. if c = CHR '','' then CHR '' '' else c) s"

text \<open>\<open>s.split()\<close>: the maximal runs of non-whitespace characters.\<close>

fun split_ws_acc :: "string \<Rightarrow> string \<Rightarrow> string list" where
  "split_ws_acc w [] = (if w = [] then [] else [rev w])"
| "split_ws_acc w (c # cs) =
     (if is_space c then (if w = [] then split_ws_acc [] cs else rev w # split_ws_acc [] cs)
      else split_ws_acc (c # w) cs)"

definition split_ws :: "string \<Rightarrow> string list" where
  "split_ws s = split_ws_acc [] s"

text \<open>\<open>s.strip()\<close>\<close>

definition strip :: "string \<Rightarrow> string" where
  "strip s = rev (dropWhile is_space (rev (dropWhile is_space s)))"

text \<open>\<open>s.split(c)\<close> with a one-character separator: never empty, keeps empty pieces.\<close>

fun split_on :: "char \<Rightarrow> string \<Rightarrow> string list" where
  "split_on c [] = [[]]"
| "split_on c (x # xs) =
     (if x = c then [] # split_on c xs
      else (let r = split_on c xs in (x # hd r) # tl r))"

text \<open>\<open>s.split(".", 1)\<close> when \<open>"." in s\<close>: the text before and after the first dot.\<close>

definition split_first_dot :: "string \<Rightarrow> string \<times> string" where
  "split_first_dot s =
     (takeWhile (\<lambda>c. c \<noteq> CHR ''.'') s, tl (dropWhile (\<lambda>c. c \<noteq> CHR ''.'') s))"

definition has_dot :: "string \<Rightarrow> bool" where
  "has_dot s = (CHR ''.'' \<in> set s)"

text \<open>\<open>s.upper()\<close> on ASCII text.\<close>

definition upper_char :: "char \<Rightarrow> char" where
  "upper_char c =
     (let n = (of_char c :: nat) in if 97 \<le> n \<and> n \<le> 122 then char_of (n - 32) else c)"

definition upper :: "string \<Rightarrow> string" where
  "upper s = map upper_char s"

text \<open>\<open>s.rjust(w)\<close>: pads with blanks on the left, never truncates.\<close>

definition rjust :: "string \<Rightarrow> nat \<Rightarrow> string" where
  "rjust s w = replicate (w - length s) (CHR '' '') @ s"

section \<open>The field registry\<close>

text \<open>
  \<open>engine.FieldDefinition.FIELDS\<close> and \<open>engine.TorrentProxy.add_manifold_attribute\<close>
  live in \<open>torrent/engine.py\<close>, outside the files at hand; both are inputs of the
  model. Of a field definition only \<open>_formatter\<close> is read. Whether a successful
  \<open>add_manifold_attribute\<close> also stores the new field is not visible from here and is
  not modelled.
\<close>

record field_def =
  formatter_of :: "(pyval \<Rightarrow> pyerr + pyval) option"

record registry =
  FIELDS :: "(string \<times> field_def) list"
  add_manifold_attribute :: "string \<Rightarrow> bool"

text \<open>\<open>key in engine.FieldDefinition.FIELDS\<close> and \<open>FIELDS[key]\<close>.\<close>

definition lookup_field :: "registry \<Rightarrow> string \<Rightarrow> field_def option" where
  "lookup_field reg name = map_of (FIELDS reg) name"

section \<open>Field lists and sort keys\<close>

text \<open>
  \<open>[i[4:] for i in globals() if i.startswith("fmt_")]\<close>: the module's \<open>fmt_\<close>
  functions in definition order.
\<close>

definition formats :: "string list" where
  "formats = [''sz'', ''iso'', ''duration'', ''delta'', ''pc'', ''strip'', ''subst'',
     ''mtime'', ''pathbase'', ''pathname'', ''pathext'', ''pathdir'', ''json'']"

text \<open>The argument \<open>fields\<close> is a string or, by the docstring, a list of names.\<close>

datatype fields_arg = FieldsStr string | FieldsList "string list"

text \<open>The inner loop \<open>for fmtspec in fmtspecs.split(".")\<close>.\<close>

fun check_fmtspecs :: "string \<Rightarrow> string list \<Rightarrow> pyerr option" where
  "check_fmtspecs fullname [] = None"
| "check_fmtspecs fullname (fmtspec # rest) =
     (if fmtspec \<notin> set formats \<and> fmtspec \<noteq> ''raw''
      then Some (UserError (UnknownFormatSpecification fmtspec fullname))
      else check_fmtspecs fullname rest)"

text \<open>One round of \<open>for name in split_fields\<close>.\<close>

definition check_name :: "registry \<Rightarrow> bool \<Rightarrow> string \<Rightarrow> pyerr option" where
  "check_name reg allow_fmt_specs name0 =
     (let fmt_err =
            (if allow_fmt_specs \<and> has_dot name0
             then check_fmtspecs name0 (split_on (CHR ''.'') (snd (split_first_dot name0)))
             else None);
          name = (if allow_fmt_specs \<and> has_dot name0 then fst (split_first_dot name0) else name0)
      in case fmt_err of
           Some e \<Rightarrow> Some e
         | None \<Rightarrow>
             (if lookup_field reg name = None \<and> \<not> add_manifold_attribute reg name
              then Some (UserError (UnknownFieldName name))
              else None))"

fun check_names :: "registry \<Rightarrow> bool \<Rightarrow> string list \<Rightarrow> pyerr option" where
  "check_names reg allow_fmt_specs [] = None"
| "check_names reg allow_fmt_specs (name # rest) =
     (case check_name reg allow_fmt_specs name of
        Some e \<Rightarrow> Some e
      | None \<Rightarrow> check_names reg allow_fmt_specs rest)"

text \<open>
  A \<open>name_filter\<close> may keep state between calls, as \<open>sort_order_filter\<close> does with the
  set \<open>descending\<close>; the state is threaded through the list comprehension
  \<open>[name_filter(name) for name in split_fields]\<close>.
\<close>

fun filter_names :: "(string \<Rightarrow> 's \<Rightarrow> string \<times> 's) \<Rightarrow> string list \<Rightarrow> 's \<Rightarrow> string list \<times> 's" where
  "filter_names nf [] st = ([], st)"
| "filter_names nf (name # rest) st =
     (let (name', st') = nf name st; (rest', st'') = filter_names nf rest st'
      in (name' # rest', st''))"

text \<open>
  \<open>validate_field_list\<close>. A list argument has no \<open>replace\<close>: the \<open>AttributeError\<close> is
  swallowed and \<open>split_fields\<close> stays unbound, so its first use raises. The function
  ends with \<open>return fields\<close>.
\<close>

definition validate_field_list ::
  "registry \<Rightarrow> fields_arg \<Rightarrow> bool \<Rightarrow> (string \<Rightarrow> 's \<Rightarrow> string \<times> 's) option \<Rightarrow> 's
     \<Rightarrow> (pyerr + fields_arg) \<times> 's" where
  "validate_field_list reg flds allow_fmt_specs name_filter st =
     (case flds of
        FieldsList _ \<Rightarrow> (Inl (UnboundLocalError ''split_fields''), st)
      | FieldsStr s \<Rightarrow>
          (let split_fields = map strip (split_ws (replace_comma s));
               (split_fields', st') =
                  (case name_filter of
                     None \<Rightarrow> (split_fields, st)
                   | Some nf \<Rightarrow> filter_names nf split_fields st)
           in case check_names reg allow_fmt_specs split_fields' of
                Some e \<Rightarrow> (Inl e, st')
              | None \<Rightarrow> (Inr flds, st')))"

text \<open>The closure \<open>sort_order_filter\<close>; its state is the set \<open>descending\<close>.\<close>

definition sort_order_filter :: "string \<Rightarrow> string set \<Rightarrow> string \<times> string set" where
  "sort_order_filter name descending =
     (case name of
        c # name' \<Rightarrow> (if c = CHR ''-'' then (name', insert name' descending) else (name, descending))
      | [] \<Rightarrow> (name, descending))"

text \<open>\<open>for field in sort_fields\<close>: a string iterates over its characters.\<close>

fun iterate :: "fields_arg \<Rightarrow> string list" where
  "iterate (FieldsStr s) = map (\<lambda>c. [c]) s"
| "iterate (FieldsList names) = names"

text \<open>A backing item: \<open>getattr(obj, name)\<close> raises \<open>AttributeError\<close> on \<open>None\<close>.\<close>

type_synonym item = "string \<Rightarrow> pyval option"

text \<open>
  \<open>lhs < rhs\<close> on values: defined between numbers and between strings, a
  \<open>TypeError\<close> otherwise.
\<close>

fun py_less :: "pyval \<Rightarrow> pyval \<Rightarrow> pyerr + bool" where
  "py_less (PInt a) (PInt b) = Inr (a < b)"
| "py_less (PBool a) (PBool b) = Inr (a < b)"
| "py_less (PInt a) (PBool b) = Inr (a < (if b then 1 else 0))"
| "py_less (PBool a) (PInt b) = Inr ((if a then 1 else 0) < b)"
| "py_less (PStr a) (PStr b) = Inr ((a, b) \<in> lexord {(x, y). (of_char x :: nat) < of_char y})"
| "py_less (PFloat a) (PFloat b) = Inl NotModelled"
| "py_less (PFloat a) (PInt b) = Inl NotModelled"
| "py_less (PFloat a) (PBool b) = Inl NotModelled"
| "py_less (PInt a) (PFloat b) = Inl NotModelled"
| "py_less (PBool a) (PFloat b) = Inl NotModelled"
| "py_less _ _ = Inl TypeError"

text \<open>\<open>lhs == rhs\<close>; \<open>True == 1\<close> and \<open>False == 0\<close> hold in Python.\<close>

fun py_eq :: "pyval \<Rightarrow> pyval \<Rightarrow> pyerr + bool" where
  "py_eq (PInt a) (PBool b) = Inr (a = (if b then 1 else 0))"
| "py_eq (PBool a) (PInt b) = Inr ((if a then 1 else 0) = b)"
| "py_eq (PFloat a) (PFloat b) = Inl NotModelled"
| "py_eq (PFloat a) (PInt b) = Inl NotModelled"
| "py_eq (PFloat a) (PBool b) = Inl NotModelled"
| "py_eq (PInt a) (PFloat b) = Inl NotModelled"
| "py_eq (PBool a) (PFloat b) = Inl NotModelled"
| "py_eq a b = Inr (a = b)"

text \<open>The body of \<open>Key.__lt__\<close>, looping over \<open>sort_fields\<close>.\<close>

fun key_lt_loop :: "string set \<Rightarrow> string list \<Rightarrow> item \<Rightarrow> item \<Rightarrow> pyerr + bool" where
  "key_lt_loop descending [] self other = Inr False"
| "key_lt_loop descending (field # rest) self other =
     (case self field of
        None \<Rightarrow> Inl AttributeError
      | Some lhs \<Rightarrow>
          (case other field of
             None \<Rightarrow> Inl AttributeError
           | Some rhs \<Rightarrow>
               (case py_eq lhs rhs of
                  Inl e \<Rightarrow> Inl e
                | Inr True \<Rightarrow> key_lt_loop descending rest self other
                | Inr False \<Rightarrow> (if field \<in> descending then py_less rhs lhs else py_less lhs rhs))))"

text \<open>
  What \<open>validate_sort_fields\<close> returns: \<open>operator.attrgetter(*tuple(sort_fields))\<close>, or
  the class \<open>Key\<close> closed over \<open>sort_fields\<close> and \<open>descending\<close>. \<open>attrgetter\<close>
  with no name at all is a \<open>TypeError\<close>.
\<close>

datatype sort_key = AttrGetter "string list" | Key fields_arg "string set"

definition validate_sort_fields :: "registry \<Rightarrow> fields_arg \<Rightarrow> pyerr + sort_key" where
  "validate_sort_fields reg sort_fields0 =
     (case validate_field_list reg sort_fields0 False (Some sort_order_filter) {} of
        (Inl e, descending) \<Rightarrow> Inl e
      | (Inr sort_fields, descending) \<Rightarrow>
          (if descending = {}
           then (if iterate sort_fields = [] then Inl TypeError
                 else Inr (AttrGetter (iterate sort_fields)))
           else Inr (Key sort_fields descending)))"

text \<open>\<open>Key(a) < Key(b)\<close>, that is \<open>Key.__lt__\<close> with the captured variables.\<close>

definition Key_lt :: "fields_arg \<Rightarrow> string set \<Rightarrow> item \<Rightarrow> item \<Rightarrow> pyerr + bool" where
  "Key_lt sort_fields descending a b = key_lt_loop descending (iterate sort_fields) a b"

section \<open>The formatter catalog\<close>

text \<open>
  What the \<open>fmt_\<close> functions call outside the files at hand: \<open>pyrosimple.util.fmt\<close>
  (\<open>human_size\<close>, \<open>iso_datetime\<close>, \<open>human_duration\<close> with its arguments \<open>time1\<close>,
  \<open>time2\<close>, \<open>precision\<close>, \<open>short\<close>), \<open>os.path\<close>, \<open>re.sub\<close>, \<open>json.dumps\<close>, and the
  float arithmetic of the interpreter. A path function sees the file system and
  \<open>human_duration\<close> with \<open>time2 = None\<close> reads the clock: both are part of the record.
\<close>

record ext =
  human_size :: "pyval \<Rightarrow> pyerr + string"
  iso_datetime :: "pyval \<Rightarrow> pyerr + string"
  human_duration :: "pyval \<Rightarrow> pyval \<Rightarrow> int \<Rightarrow> bool \<Rightarrow> pyerr + string"
  int_to_float :: "int \<Rightarrow> (64 word) option"
  parse_float :: "string \<Rightarrow> (64 word) option"
  times100_round2 :: "64 word \<Rightarrow> 64 word"
  float_repr :: "64 word \<Rightarrow> string"
  re_sub :: "pyval \<Rightarrow> pyval \<Rightarrow> pyval \<Rightarrow> pyerr + pyval"
  getmtime :: "pyval \<Rightarrow> pyerr + pyval"
  basename :: "pyval \<Rightarrow> pyerr + pyval"
  splitext :: "pyval \<Rightarrow> pyerr + pyval \<times> pyval"
  dirname :: "pyval \<Rightarrow> pyerr + pyval"
  json_dumps :: "pyval \<Rightarrow> pyerr + string"

text \<open>
  \<open>float(x)\<close>: a \<open>TypeError\<close> on \<open>None\<close>, a \<open>ValueError\<close> on text that is no number, an
  \<open>OverflowError\<close> on an integer beyond the float range.
\<close>

fun py_float :: "ext \<Rightarrow> pyval \<Rightarrow> pyerr + 64 word" where
  "py_float x PNone = Inl TypeError"
| "py_float x (PBool b) = Inr (if b then 0x3FF0000000000000 else 0)"
| "py_float x (PInt n) = (case int_to_float x n of None \<Rightarrow> Inl OverflowError | Some w \<Rightarrow> Inr w)"
| "py_float x (PFloat w) = Inr w"
| "py_float x (PStr s) = (case parse_float x s of None \<Rightarrow> Inl ValueError | Some w \<Rightarrow> Inr w)"

text \<open>Decimal digits of a number, for \<open>str(n)\<close>.\<close>

fun show_nat :: "nat \<Rightarrow> string" where
  "show_nat n =
     (if n < 10 then [char_of (48 + n)] else show_nat (n div 10) @ [char_of (48 + n mod 10)])"

definition show_int :: "int \<Rightarrow> string" where
  "show_int i = (if i < 0 then CHR ''-'' # show_nat (nat (- i)) else show_nat (nat i))"

text \<open>\<open>str(x)\<close>\<close>

fun py_str :: "ext \<Rightarrow> pyval \<Rightarrow> string" where
  "py_str x PNone = ''None''"
| "py_str x (PBool b) = (if b then ''True'' else ''False'')"
| "py_str x (PInt n) = show_int n"
| "py_str x (PFloat w) = float_repr x w"
| "py_str x (PStr s) = s"

text \<open>Truth value of \<open>x\<close> in \<open>x or ""\<close> and \<open>... if x else ...\<close>; both float zeros are false.\<close>

fun truthy :: "pyval \<Rightarrow> bool" where
  "truthy PNone = False"
| "truthy (PBool b) = b"
| "truthy (PInt n) = (n \<noteq> 0)"
| "truthy (PFloat w) = (w \<noteq> 0 \<and> w \<noteq> 0x8000000000000000)"
| "truthy (PStr s) = (s \<noteq> [])"

text \<open>\<open>val or ""\<close>\<close>

definition or_empty :: "pyval \<Rightarrow> pyval" where
  "or_empty val = (if truthy val then val else PStr [])"

text \<open>The handler \<open>except (ValueError, TypeError)\<close> of the first four formatters.\<close>

definition value_or_type_error :: "pyerr \<Rightarrow> bool" where
  "value_or_type_error e = (e = ValueError \<or> e = TypeError)"

definition fmt_sz :: "ext \<Rightarrow> pyval \<Rightarrow> pyerr + pyval" where
  "fmt_sz x intval =
     (case human_size x intval of
        Inr s \<Rightarrow> Inr (PStr s)
      | Inl e \<Rightarrow>
          (if value_or_type_error e
           then (case human_size x (PInt 0) of
                   Inl e' \<Rightarrow> Inl e'
                 | Inr z \<Rightarrow> Inr (PStr (rjust ''N/A'' (length z))))
           else Inl e))"

definition fmt_iso :: "ext \<Rightarrow> pyval \<Rightarrow> pyerr + pyval" where
  "fmt_iso x timestamp =
     (case iso_datetime x timestamp of
        Inr s \<Rightarrow> Inr (PStr s)
      | Inl e \<Rightarrow>
          (if value_or_type_error e
           then (case iso_datetime x (PInt 0) of
                   Inl e' \<Rightarrow> Inl e'
                 | Inr z \<Rightarrow> Inr (PStr (rjust ''N/A'' (length z))))
           else Inl e))"

definition fmt_duration :: "ext \<Rightarrow> pyval \<Rightarrow> pyerr + pyval" where
  "fmt_duration x duration =
     (case and_then (py_float x duration) (\<lambda>f. human_duration x (PFloat f) (PInt 0) 2 True) of
        Inr s \<Rightarrow> Inr (PStr s)
      | Inl e \<Rightarrow>
          (if value_or_type_error e
           then (case human_duration x (PInt 0) (PInt 0) 2 True of
                   Inl e' \<Rightarrow> Inl e'
                 | Inr z \<Rightarrow> Inr (PStr (rjust ''N/A'' (length z))))
           else Inl e))"

definition fmt_delta :: "ext \<Rightarrow> pyval \<Rightarrow> pyerr + pyval" where
  "fmt_delta x timestamp =
     (case and_then (py_float x timestamp) (\<lambda>f. human_duration x (PFloat f) PNone 2 True) of
        Inr s \<Rightarrow> Inr (PStr s)
      | Inl e \<Rightarrow>
          (if value_or_type_error e
           then (case human_duration x (PInt 0) PNone 2 True of
                   Inl e' \<Rightarrow> Inl e'
                 | Inr z \<Rightarrow> Inr (PStr (rjust ''N/A'' (length z))))
           else Inl e))"

text \<open>\<open>round(float(floatval) * 100.0, 2)\<close>, with no handler around it.\<close>

definition fmt_pc :: "ext \<Rightarrow> pyval \<Rightarrow> pyerr + pyval" where
  "fmt_pc x floatval =
     (case py_float x floatval of
        Inl e \<Rightarrow> Inl e
      | Inr w \<Rightarrow> Inr (PFloat (times100_round2 x w)))"

definition fmt_strip :: "ext \<Rightarrow> pyval \<Rightarrow> pyerr + pyval" where
  "fmt_strip x val = Inr (PStr (strip (py_str x val)))"

text \<open>\<open>fmt_subst(regex, subst)\<close> returns the function applied to \<open>text\<close>.\<close>

definition fmt_subst :: "ext \<Rightarrow> pyval \<Rightarrow> pyval \<Rightarrow> pyval \<Rightarrow> pyerr + pyval" where
  "fmt_subst x regex subst text = (if truthy text then re_sub x regex subst text else Inr text)"

definition fmt_mtime :: "ext \<Rightarrow> pyval \<Rightarrow> pyerr + pyval" where
  "fmt_mtime x val = (if truthy val then getmtime x val else Inr (PFloat 0))"

definition fmt_pathbase :: "ext \<Rightarrow> pyval \<Rightarrow> pyerr + pyval" where
  "fmt_pathbase x val = basename x (or_empty val)"

definition fmt_pathname :: "ext \<Rightarrow> pyval \<Rightarrow> pyerr + pyval" where
  "fmt_pathname x val =
     and_then (basename x (or_empty val)) (\<lambda>b. and_then (splitext x b) (\<lambda>p. Inr (fst p)))"

definition fmt_pathext :: "ext \<Rightarrow> pyval \<Rightarrow> pyerr + pyval" where
  "fmt_pathext x val = and_then (splitext x (or_empty val)) (\<lambda>p. Inr (snd p))"

definition fmt_pathdir :: "ext \<Rightarrow> pyval \<Rightarrow> pyerr + pyval" where
  "fmt_pathdir x val = dirname x (or_empty val)"

definition fmt_json :: "ext \<Rightarrow> pyval \<Rightarrow> pyerr + pyval" where
  "fmt_json x val = and_then (json_dumps x val) (\<lambda>s. Inr (PStr s))"

text \<open>
  A module-level \<open>fmt_\<close> function takes one argument, or two in the case of
  \<open>fmt_subst\<close>. Calling the latter with a single value is a \<open>TypeError\<close>.
\<close>

datatype catalog_fn =
    Fn1 "pyval \<Rightarrow> pyerr + pyval"
  | Fn2 "pyval \<Rightarrow> pyval \<Rightarrow> pyval \<Rightarrow> pyerr + pyval"

fun call1 :: "catalog_fn \<Rightarrow> pyval \<Rightarrow> pyerr + pyval" where
  "call1 (Fn1 f) val = f val"
| "call1 (Fn2 g) val = Inl TypeError"

text \<open>The \<open>fmt_\<close> entries of \<open>globals()\<close>, keyed by the name after the prefix.\<close>

definition fmt_globals :: "ext \<Rightarrow> (string \<times> catalog_fn) list" where
  "fmt_globals x =
     [(''sz'', Fn1 (fmt_sz x)), (''iso'', Fn1 (fmt_iso x)), (''duration'', Fn1 (fmt_duration x)),
      (''delta'', Fn1 (fmt_delta x)), (''pc'', Fn1 (fmt_pc x)), (''strip'', Fn1 (fmt_strip x)),
      (''subst'', Fn2 (fmt_subst x)), (''mtime'', Fn1 (fmt_mtime x)),
      (''pathbase'', Fn1 (fmt_pathbase x)), (''pathname'', Fn1 (fmt_pathname x)),
      (''pathext'', Fn1 (fmt_pathext x)), (''pathdir'', Fn1 (fmt_pathdir x)),
      (''json'', Fn1 (fmt_json x))]"

section \<open>The output adapter\<close>

type_synonym pydict = "(string \<times> pyval) list"

text \<open>\<open>d.setdefault(k, v)\<close>: stores \<open>v\<close> only when \<open>k\<close> is absent.\<close>

definition setdefault :: "pydict \<Rightarrow> string \<Rightarrow> pyval \<Rightarrow> pydict" where
  "setdefault d k v = (if map_of d k = None then d @ [(k, v)] else d)"

text \<open>
  Dictionaries are objects in a store, addressed by their position, so that the
  caller's \<open>defaults\<close> and \<open>self.defaults\<close> can be one object. \<open>OutputMapping.__init__\<close>
  stores \<open>defaults or {}\<close>: the caller's dictionary when it is given and non-empty, a
  fresh empty one otherwise; then it calls \<open>setdefault("pc", "%")\<close> on it.
\<close>

record output_mapping =
  om_obj :: "item option"
  om_defaults :: nat

definition OutputMapping_init ::
  "item option \<Rightarrow> nat option \<Rightarrow> pydict list \<Rightarrow> output_mapping \<times> pydict list" where
  "OutputMapping_init obj dflts store =
     (let (a, store1) =
            (case dflts of
               None \<Rightarrow> (length store, store @ [[]])
             | Some d \<Rightarrow> (if store ! d \<noteq> [] then (d, store) else (length store, store @ [[]])))
      in (\<lparr>om_obj = obj, om_defaults = a\<rparr>,
          store1[a := setdefault (store1 ! a) ''pc'' (PStr ''%'')]))"

text \<open>
  The loop \<open>for fmtname in formats\<close> of \<open>__getitem__\<close>: each named function is looked up
  and composed around the chain built so far, \<open>f(k(val))\<close>.
\<close>

fun build_chain ::
  "ext \<Rightarrow> string \<Rightarrow> string list \<Rightarrow> (pyval \<Rightarrow> pyerr + pyval) option
     \<Rightarrow> pyerr + (pyval \<Rightarrow> pyerr + pyval) option" where
  "build_chain x key [] formatter = Inr formatter"
| "build_chain x key (fmtname # rest) formatter =
     (case map_of (fmt_globals x) fmtname of
        None \<Rightarrow> Inl (UserError (UnknownFormattingSpec fmtname key))
      | Some fmtfunc \<Rightarrow>
          build_chain x key rest
            (Some (case formatter of
                     Some k \<Rightarrow> (\<lambda>val. and_then (k val) (call1 fmtfunc))
                   | None \<Rightarrow> call1 fmtfunc)))"

text \<open>The first part of \<open>__getitem__\<close>: the key, \<open>have_raw\<close> and the chain.\<close>

definition parse_key ::
  "ext \<Rightarrow> string \<Rightarrow> string \<times> bool \<times> (pyerr + (pyval \<Rightarrow> pyerr + pyval) option)" where
  "parse_key x key0 =
     (if has_dot key0
      then (let key = fst (split_first_dot key0);
                fmts = split_on (CHR ''.'') (snd (split_first_dot key0));
                have_raw = (hd fmts = ''raw'');
                fmts' = (if have_raw then tl fmts else fmts)
            in (key, have_raw, build_chain x key fmts' None))
      else (key0, False, Inr None))"

text \<open>
  The second part: the field formatter. An unknown key is accepted when it is in the
  defaults or a manifold attribute.
\<close>

definition field_formatter ::
  "registry \<Rightarrow> pydict \<Rightarrow> string \<Rightarrow> bool \<Rightarrow> (pyval \<Rightarrow> pyerr + pyval) option
     \<Rightarrow> pyerr + (pyval \<Rightarrow> pyerr + pyval) option" where
  "field_formatter reg dflts key have_raw formatter =
     (case lookup_field reg key of
        None \<Rightarrow>
          (if map_of dflts key = None \<and> \<not> add_manifold_attribute reg key
           then Inl (UserError (UnknownField key))
           else Inr formatter)
      | Some field \<Rightarrow>
          (case formatter_of field of
             None \<Rightarrow> Inr formatter
           | Some ff \<Rightarrow>
               (if have_raw then Inr formatter
                else Inr (Some (case formatter of
                                  Some f \<Rightarrow> (\<lambda>val. and_then (ff val) f)
                                | None \<Rightarrow> ff)))))"

text \<open>The exceptions named by the handler around \<open>formatter(val)\<close>.\<close>

definition caught :: "pyerr \<Rightarrow> bool" where
  "caught e = (e = TypeError \<or> e = ValueError \<or> e = KeyError \<or> e = IndexError \<or> e = AttributeError)"

text \<open>The last part: the column name without an object, the formatted value with one.\<close>

definition render_value ::
  "item option \<Rightarrow> pydict \<Rightarrow> string \<Rightarrow> (pyval \<Rightarrow> pyerr + pyval) option \<Rightarrow> pyerr + pyval" where
  "render_value obj dflts key formatter =
     (case obj of
        None \<Rightarrow> Inr (PStr (if key = ''pc'' then ''%'' else upper key))
      | Some ob \<Rightarrow>
          (case (case ob key of
                   Some v \<Rightarrow> Inr v
                 | None \<Rightarrow> (case map_of dflts key of Some v \<Rightarrow> Inr v | None \<Rightarrow> Inl AttributeError)) of
             Inl e \<Rightarrow> Inl e
           | Inr val \<Rightarrow>
               (case formatter of
                  None \<Rightarrow> Inr val
                | Some f \<Rightarrow>
                    (case f val of
                       Inr r \<Rightarrow> Inr r
                     | Inl exc \<Rightarrow>
                         (if caught exc then Inl (LoggableError key val exc) else Inl exc)))))"

text \<open>\<open>OutputMapping.__getitem__\<close> on the object and the contents of \<open>self.defaults\<close>.\<close>

definition getitem :: "registry \<Rightarrow> ext \<Rightarrow> item option \<Rightarrow> pydict \<Rightarrow> string \<Rightarrow> pyerr + pyval" where
  "getitem reg x obj dflts key0 =
     (case parse_key x key0 of
        (key, have_raw, Inl e) \<Rightarrow> Inl e
      | (key, have_raw, Inr formatter) \<Rightarrow>
          (case field_formatter reg dflts key have_raw formatter of
             Inl e \<Rightarrow> Inl e
           | Inr formatter' \<Rightarrow> render_value obj dflts key formatter'))"

definition OutputMapping_getitem ::
  "registry \<Rightarrow> ext \<Rightarrow> output_mapping \<Rightarrow> pydict list \<Rightarrow> string \<Rightarrow> pyerr + pyval" where
  "OutputMapping_getitem reg x self store key =
     getitem reg x (om_obj self) (store ! om_defaults self) key"

section \<open>Template expansion\<close>

text \<open>
  What a template namespace holds: plain values, catalog functions, a \<open>Bunch\<close> of
  named entries, a backing item, or an object of the configuration that the model
  does not look into (\<open>config.custom_template_helpers\<close>).
\<close>

datatype nsval =
    NsVal pyval
  | NsFn catalog_fn
  | NsBunch "(string \<times> nsval) list"
  | NsItem item
  | NsObject nat

text \<open>
  Tempita and Jinja2 are libraries, and \<open>templating.preparse\<close> and
  \<open>config.custom_template_helpers\<close> are outside the files at hand. A template is
  kept as its source text.
\<close>

record engines =
  custom_template_helpers :: nsval
  templating_preparse :: "string \<Rightarrow> pyerr + string"
  tempita_substitute :: "string \<Rightarrow> (string \<Rightarrow> nsval option) \<Rightarrow> pyerr + string"
  jinja2_render :: "string \<Rightarrow> item option \<Rightarrow> pyerr + string"

text \<open>
  The dictionary \<open>formatters\<close> of \<open>expand_template\<close>, and the namespace it builds:
  \<open>dict(h=helpers, c=config.custom_template_helpers)\<close>, updated with the formatters,
  then with the caller's namespace.
\<close>

definition formatters :: "ext \<Rightarrow> (string \<times> nsval) list" where
  "formatters x = map (\<lambda>(name, method). (name, NsFn method)) (fmt_globals x)"

definition template_variables ::
  "engines \<Rightarrow> ext \<Rightarrow> (string \<Rightarrow> nsval option) \<Rightarrow> (string \<Rightarrow> nsval option)" where
  "template_variables eng x namespace =
     ([''h'' \<mapsto> NsBunch (formatters x), ''c'' \<mapsto> custom_template_helpers eng]
        ++ map_of (formatters x)) ++ namespace"

text \<open>The handler \<open>except (AttributeError, ValueError, NameError, TypeError)\<close>.\<close>

fun template_failure :: "pyerr \<Rightarrow> bool" where
  "template_failure AttributeError = True"
| "template_failure ValueError = True"
| "template_failure (NameError n) = True"
| "template_failure (UnboundLocalError n) = True"
| "template_failure TypeError = True"
| "template_failure e = False"

definition expand_template ::
  "engines \<Rightarrow> ext \<Rightarrow> string \<Rightarrow> (string \<Rightarrow> nsval option) \<Rightarrow> pyerr + string" where
  "expand_template eng x template namespace =
     (let variables = template_variables eng x namespace
      in case and_then (templating_preparse eng template)
                (\<lambda>t. tempita_substitute eng t variables) of
           Inr s \<Rightarrow> Inr s
         | Inl exc \<Rightarrow> (if template_failure exc then Inl (TemplateError exc) else Inl exc))"

section \<open>Interpolation\<close>

text \<open>
  The header rewrite of \<open>format_item\<close> substitutes the pattern
  \<open>(\([_.a-zA-Z0-9]+\)[-#+0 ]?[0-9]*?)[.0-9]*[diouxXeEfFgG]\<close> by its first group and
  \<open>s\<close>. The character classes of the pattern:
\<close>

definition in_range :: "char \<Rightarrow> char \<Rightarrow> char \<Rightarrow> bool" where
  "in_range lo hi c = ((of_char lo :: nat) \<le> of_char c \<and> (of_char c :: nat) \<le> of_char hi)"

definition is_digit :: "char \<Rightarrow> bool" where
  "is_digit c = in_range (CHR ''0'') (CHR ''9'') c"

definition is_name_char :: "char \<Rightarrow> bool" where
  "is_name_char c =
     (c = CHR ''_'' \<or> c = CHR ''.'' \<or> in_range (CHR ''a'') (CHR ''z'') c
      \<or> in_range (CHR ''A'') (CHR ''Z'') c \<or> is_digit c)"

definition is_flag_char :: "char \<Rightarrow> bool" where
  "is_flag_char c = (c \<in> set ''-#+0 '')"

definition is_dot_digit :: "char \<Rightarrow> bool" where
  "is_dot_digit c = (c = CHR ''.'' \<or> is_digit c)"

definition is_numeric_conv :: "char \<Rightarrow> bool" where
  "is_numeric_conv c = (c \<in> set ''diouxXeEfFgG'')"

text \<open>
  A match of the pattern at the start of the text, as the first group and the length
  of the match. The name is the whole run of name characters, since \<open>)\<close> must follow
  it; the optional flag is taken when a flag character is there; the lazy \<open>[0-9]*?\<close>
  stays empty, because \<open>[.0-9]*\<close> behind it takes the whole run of dots and digits,
  which a conversion letter must follow.
\<close>

definition match_at :: "string \<Rightarrow> (string \<times> nat) option" where
  "match_at s =
     (case s of
        [] \<Rightarrow> None
      | c0 # r0 \<Rightarrow>
          (let name = takeWhile is_name_char r0; r1 = dropWhile is_name_char r0
           in if c0 \<noteq> CHR ''('' \<or> name = [] then None
              else (case r1 of
                      [] \<Rightarrow> None
                    | c1 # r2 \<Rightarrow>
                        (let flag = (case r2 of
                                       [] \<Rightarrow> []
                                     | f # _ \<Rightarrow> (if is_flag_char f then [f] else []));
                             r3 = drop (length flag) r2;
                             run = takeWhile is_dot_digit r3;
                             r4 = dropWhile is_dot_digit r3
                         in if c1 \<noteq> CHR '')'' then None
                            else (case r4 of
                                    [] \<Rightarrow> None
                                  | conv # _ \<Rightarrow>
                                      (if is_numeric_conv conv
                                       then Some (CHR ''('' # name @ CHR '')'' # flag,
                                                  length name + length flag + length run + 3)
                                       else None))))))"

text \<open>\<open>re.sub\<close> with that pattern: leftmost matches, one after the other.\<close>

fun header_sub :: "string \<Rightarrow> string" where
  "header_sub [] = []"
| "header_sub (c # cs) =
     (case match_at (c # cs) of
        None \<Rightarrow> c # header_sub cs
      | Some (group1, n) \<Rightarrow> group1 @ ''s'' @ header_sub (drop (n - 1) cs))"

text \<open>
  The operator \<open>%\<close> on a string and a mapping. After \<open>%\<close> come an optional key in
  parentheses (balanced ones belong to the key), flags, a width, a precision, a
  length modifier and the conversion character. The key is looked up as soon as it
  is read.
\<close>

fun take_key :: "nat \<Rightarrow> string \<Rightarrow> string \<Rightarrow> (string \<times> string) option" where
  "take_key depth acc [] = None"
| "take_key depth acc (c # cs) =
     (if c = CHR '')'' then (if depth = 0 then Some (rev acc, cs) else take_key (depth - 1) (c # acc) cs)
      else if c = CHR ''('' then take_key (Suc depth) (c # acc) cs
      else take_key depth (c # acc) cs)"

definition is_percent_flag :: "char \<Rightarrow> bool" where
  "is_percent_flag c = (c \<in> set ''-+ #0'')"

definition number_of :: "string \<Rightarrow> nat" where
  "number_of ds = foldl (\<lambda>a c. a * 10 + (of_char c - 48)) 0 ds"

datatype amount = Unset | Star | Digits nat

record directive =
  flags :: string
  width :: amount
  precision :: amount
  conversion :: char

text \<open>The part of a directive behind the key, and the text that follows the directive.\<close>

definition parse_rest :: "string \<Rightarrow> pyerr + directive \<times> string" where
  "parse_rest s =
     (let fl = takeWhile is_percent_flag s;
          s1 = dropWhile is_percent_flag s;
          (w, s2) = (case s1 of
                       [] \<Rightarrow> (Unset, s1)
                     | c # t \<Rightarrow>
                         (if c = CHR ''*'' then (Star, t)
                          else if is_digit c
                          then (Digits (number_of (takeWhile is_digit s1)), dropWhile is_digit s1)
                          else (Unset, s1)));
          (p, s3) = (case s2 of
                       [] \<Rightarrow> (Unset, s2)
                     | c # t \<Rightarrow>
                         (if c \<noteq> CHR ''.'' then (Unset, s2)
                          else (case t of
                                  [] \<Rightarrow> (Digits 0, t)
                                | c' # t' \<Rightarrow>
                                    (if c' = CHR ''*'' then (Star, t')
                                     else (Digits (number_of (takeWhile is_digit t)),
                                           dropWhile is_digit t)))));
          s4 = (case s3 of
                  [] \<Rightarrow> s3
                | c # t \<Rightarrow> (if c \<in> set ''hlL'' then t else s3))
      in case s4 of
           [] \<Rightarrow> Inl ValueError
         | conv # rest \<Rightarrow>
             (if (case w of Digits n \<Rightarrow> n > 9223372036854775807 | _ \<Rightarrow> False)
                 \<or> (case p of Digits n \<Rightarrow> n > 2147483647 | _ \<Rightarrow> False)
              then Inl ValueError
              else Inr (\<lparr>flags = fl, width = w, precision = p, conversion = conv\<rparr>, rest)))"

text \<open>Truncation to the precision and padding to the width, for text.\<close>

definition pad_text :: "directive \<Rightarrow> string \<Rightarrow> string" where
  "pad_text d s =
     (let t = (case precision d of Digits p \<Rightarrow> take p s | _ \<Rightarrow> s);
          w = (case width d of Digits n \<Rightarrow> n | _ \<Rightarrow> 0);
          fill = replicate (w - length t) (CHR '' '')
      in if CHR ''-'' \<in> set (flags d) then t @ fill else fill @ t)"

text \<open>
  One value under one directive. A numeric conversion of text or of \<open>None\<close> is a
  \<open>TypeError\<close>, and so is \<open>%c\<close> of text that is not a single character. The cases left
  to \<open>NotModelled\<close> are \<open>*\<close> as width or precision, \<open>%r\<close> and \<open>%a\<close>, and the rendering
  of numbers other than a plain \<open>%d\<close>, \<open>%i\<close> or \<open>%u\<close> of an integer.
\<close>

definition render_directive :: "ext \<Rightarrow> directive \<Rightarrow> pyval \<Rightarrow> pyerr + string" where
  "render_directive x d v =
     (let conv = conversion d
      in if width d = Star \<or> precision d = Star then Inl NotModelled
         else if conv = CHR ''s'' then Inr (pad_text d (py_str x v))
         else if conv = CHR ''r'' \<or> conv = CHR ''a'' then Inl NotModelled
         else if conv = CHR ''c''
         then (case v of
                 PStr s \<Rightarrow> (if length s = 1 then Inr (pad_text (d\<lparr>precision := Unset\<rparr>) s)
                            else Inl TypeError)
               | PInt n \<Rightarrow> (if n < 0 \<or> 1114111 < n then Inl OverflowError else Inl NotModelled)
               | PBool b \<Rightarrow> Inl NotModelled
               | _ \<Rightarrow> Inl TypeError)
         else if conv \<in> set ''diouxXeEfFgG''
         then (case v of
                 PStr s \<Rightarrow> Inl TypeError
               | PNone \<Rightarrow> Inl TypeError
               | PInt n \<Rightarrow>
                   (if conv \<in> set ''diu'' \<and> flags d = [] \<and> precision d = Unset
                    then Inr (pad_text d (show_int n))
                    else Inl NotModelled)
               | _ \<Rightarrow> Inl NotModelled)
         else Inl ValueError)"

text \<open>
  One directive, read behind its \<open>%\<close>: the rendered text and what follows. A
  directive without a key takes the mapping object itself as its argument, which
  the model does not render; \<open>%%\<close> is a percent sign.
\<close>

definition format_directive ::
  "(string \<Rightarrow> pyerr + pyval) \<Rightarrow> ext \<Rightarrow> string \<Rightarrow> pyerr + string \<times> string" where
  "format_directive lookup x s =
     (case s of
        [] \<Rightarrow> Inl ValueError
      | c # t \<Rightarrow>
          (if c = CHR ''(''
           then (case take_key 0 [] t of
                   None \<Rightarrow> Inl ValueError
                 | Some (key, s1) \<Rightarrow>
                     and_then (lookup key) (\<lambda>v.
                     and_then (parse_rest s1) (\<lambda>(d, rest).
                       if conversion d = CHR ''%'' then Inr (''%'', rest)
                       else and_then (render_directive x d v) (\<lambda>out. Inr (out, rest)))))
           else and_then (parse_rest s) (\<lambda>(d, rest).
                  if conversion d = CHR ''%'' then Inr (''%'', rest) else Inl NotModelled)))"

text \<open>
  The whole format string, directive after directive. What follows a directive is a
  suffix of the text behind its \<open>%\<close>, and the scan goes on there.
\<close>

fun percent_format :: "(string \<Rightarrow> pyerr + pyval) \<Rightarrow> ext \<Rightarrow> string \<Rightarrow> pyerr + string" where
  "percent_format lookup x [] = Inr []"
| "percent_format lookup x (c # cs) =
     (if c = CHR ''%''
      then (case format_directive lookup x cs of
              Inl e \<Rightarrow> Inl e
            | Inr (out, rest) \<Rightarrow>
                (case percent_format lookup x (drop (length cs - length rest) cs) of
                   Inl e \<Rightarrow> Inl e
                 | Inr text \<Rightarrow> Inr (out @ text)))
      else (case percent_format lookup x cs of
              Inl e \<Rightarrow> Inl e
            | Inr text \<Rightarrow> Inr (c # text)))"

text \<open>
  A format is a string, or an object tagged with \<open>__engine__\<close> as \<open>tempita\<close> or
  \<open>jinja2\<close>. An item is present (and then counts as true) or \<open>None\<close>.
\<close>

datatype format_spec = SpecStr string | SpecTempita string | SpecJinja2 string

text \<open>The header namespace of the Tempita branch: labels for \<open>d\<close>, justifying wrappers.\<close>

definition header_wrapper :: "ext \<Rightarrow> catalog_fn \<Rightarrow> catalog_fn" where
  "header_wrapper x m =
     Fn1 (\<lambda>v. and_then (call1 m (PInt 0))
                 (\<lambda>z. Inr (PStr (rjust (py_str x v) (length (py_str x z))))))"

definition tempita_namespace :: "registry \<Rightarrow> ext \<Rightarrow> item option \<Rightarrow> (string \<Rightarrow> nsval option)" where
  "tempita_namespace reg x item =
     (case item of
        Some it \<Rightarrow> [''headers'' \<mapsto> NsVal (PBool False), ''d'' \<mapsto> NsItem it]
      | None \<Rightarrow>
          [''headers'' \<mapsto> NsVal (PBool True),
           ''d'' \<mapsto> NsBunch (map (\<lambda>(name, f). (name, NsVal (PStr (upper name)))) (FIELDS reg))]
          ++ map_of (map (\<lambda>(name, m). (name, NsFn (header_wrapper x m))) (fmt_globals x)))"

text \<open>
  \<open>format_item\<close>. A plain string that starts with \<open>{#\<close> is sent to \<open>render\<close>, which
  a string does not have. The interpolation branch builds an adapter, so the store
  of dictionaries is returned with the result.
\<close>

definition format_item ::
  "registry \<Rightarrow> ext \<Rightarrow> engines \<Rightarrow> format_spec \<Rightarrow> item option \<Rightarrow> nat option \<Rightarrow> pydict list
     \<Rightarrow> (pyerr + string) \<times> pydict list" where
  "format_item reg x eng fspec item dflts store =
     (let interpolate = (\<lambda>s.
            let s' = (if item = None then header_sub s else s);
                (self, store') = OutputMapping_init item dflts store
            in (percent_format (OutputMapping_getitem reg x self store') x s', store'))
      in case fspec of
           SpecTempita t \<Rightarrow> (expand_template eng x t (tempita_namespace reg x item), store)
         | SpecJinja2 t \<Rightarrow> (jinja2_render eng t item, store)
         | SpecStr s \<Rightarrow>
             (if take 2 s = ''{{'' then (expand_template eng x s (tempita_namespace reg x item), store)
              else if take 2 s = ''{#'' then (Inl AttributeError, store)
              else interpolate s))"

section \<open>Moving a torrent to a remote host\<close>

text \<open>\<open>int.from_bytes(bs, "big")\<close> and \<open>s.encode()\<close> on ASCII text.\<close>

definition from_bytes_big :: "8 word list \<Rightarrow> nat" where
  "from_bytes_big bs = foldl (\<lambda>acc b. acc * 256 + unat b) 0 bs"

definition encode :: "string \<Rightarrow> 8 word list" where
  "encode s = map (\<lambda>c. of_nat (of_char c)) s"

text \<open>\<open>d[k] = v\<close> on an insertion-ordered dictionary: a present key keeps its place.\<close>

fun dict_set :: "('k \<times> 'v) list \<Rightarrow> 'k \<Rightarrow> 'v \<Rightarrow> ('k \<times> 'v) list" where
  "dict_set [] k v = [(k, v)]"
| "dict_set ((k', v') # rest) k v =
     (if k' = k then (k, v) # rest else (k', v') # dict_set rest k v)"

text \<open>
  \<open>nodes_by_hash_weight\<close>: the dictionary comprehension over the nodes, then the
  items sorted by weight (\<open>sorted\<close> is stable). \<open>hashlib.sha256\<close> is a parameter.
\<close>

definition nodes_by_hash_weight ::
  "(8 word list \<Rightarrow> 8 word list) \<Rightarrow> string \<Rightarrow> string list \<Rightarrow> (string \<times> nat) list" where
  "nodes_by_hash_weight sha256 meta_id nodes =
     (let result = foldl (\<lambda>d n. dict_set d n (from_bytes_big (sha256 (encode meta_id @ encode n))))
                     [] nodes
      in sort_key snd result)"

record torrent =
  t_hash :: string
  t_alias :: string

record mover_config =
  hosts :: "string list"
  dry_run :: bool

text \<open>What \<open>run_item\<close> does to the outside: log lines and the move itself.\<close>

datatype mover_event =
    AlreadyExists string string
  | WouldMove string string
  | MovedTo string string

text \<open>
  The loop over the hosts, with \<open>i\<close> bound to an item. \<open>holds host hash\<close> tells
  whether \<open>rproxy.d.hash\<close> finds the hash at that host.
\<close>

fun run_hosts :: "(string \<Rightarrow> string \<Rightarrow> bool) \<Rightarrow> bool \<Rightarrow> torrent \<Rightarrow> string list \<Rightarrow> mover_event list" where
  "run_hosts holds dry i [] = []"
| "run_hosts holds dry i (host # rest) =
     (if holds host (t_hash i) then AlreadyExists (t_hash i) host # run_hosts holds dry i rest
      else if dry then [WouldMove (t_hash i) host]
      else [MovedTo (t_hash i) host])"

text \<open>
  What a global name of the module can be bound to, as far as \<open>run_item\<close> can tell:
  an item with \<open>hash\<close> and \<open>alias\<close>, or some other object without them.
\<close>

datatype binding = ItemObject torrent | OtherObject

text \<open>
  \<open>Mover.run_item(self, item)\<close>. Its body never mentions the parameter \<open>item\<close>: it
  reads \<open>i\<close>, which is no local name, so the name is looked up among the globals of
  the module when the first expression, \<open>i.hash + i.alias\<close>, is evaluated.
\<close>

definition run_item ::
  "(8 word list \<Rightarrow> 8 word list) \<Rightarrow> mover_config \<Rightarrow> (string \<Rightarrow> string \<Rightarrow> bool)
     \<Rightarrow> (string \<Rightarrow> binding option) \<Rightarrow> torrent \<Rightarrow> pyerr + mover_event list" where
  "run_item sha256 cfg holds globals item =
     (case globals ''i'' of
        None \<Rightarrow> Inl (NameError ''i'')
      | Some OtherObject \<Rightarrow> Inl AttributeError
      | Some (ItemObject i) \<Rightarrow>
          Inr (run_hosts holds (dry_run cfg) i
                 (map fst (nodes_by_hash_weight sha256 (t_hash i @ t_alias i) (hosts cfg)))))"

text \<open>
  The names bound at the top of \<open>job/move_torrent.py\<close>: modules, typing names, two
  functions and the class.
\<close>

definition module_names :: "string list" where
  "module_names = [''hashlib'', ''Path'', ''Dict'', ''List'', ''bencode'', ''pyrosimple'',
     ''config'', ''error'', ''base'', ''matching'', ''pymagic'', ''rpc'',
     ''nodes_by_hash_weight'', ''get_custom_fields'', ''Mover'']"

definition module_globals :: "string \<Rightarrow> binding option" where
  "module_globals = map_of (map (\<lambda>name. (name, OtherObject)) module_names)"

section \<open>Sample inputs\<close>

text \<open>
  A registry with the fields \<open>size\<close> (formatted by \<open>fmt_sz\<close>), \<open>name\<close> and \<open>path\<close>
  (unformatted), and no manifold attributes.
\<close>

definition sample_registry :: "ext \<Rightarrow> registry" where
  "sample_registry x =
     \<lparr>FIELDS = [(''size'', \<lparr>formatter_of = Some (fmt_sz x)\<rparr>),
                (''name'', \<lparr>formatter_of = None\<rparr>),
                (''path'', \<lparr>formatter_of = None\<rparr>)],
      add_manifold_attribute = (\<lambda>_. False)\<rparr>"

text \<open>
  External helpers for the examples: sizes, times and durations are rendered for
  integers only, every path is absent from the file system, and the other helpers
  reject their input.
\<close>

definition sample_ext :: ext where
  "sample_ext =
     \<lparr>human_size = (\<lambda>v. case v of
                        PInt n \<Rightarrow> Inr (rjust (show_int n) 4 @ '' bytes'')
                      | _ \<Rightarrow> Inl TypeError),
      iso_datetime = (\<lambda>v. case v of
                          PInt n \<Rightarrow> Inr (''1970-01-01 00:00:'' @ rjust (show_int n) 2)
                        | _ \<Rightarrow> Inl TypeError),
      human_duration = (\<lambda>t1 t2 p s. case t1 of
                          PInt n \<Rightarrow> Inr (rjust (show_int n) 5 @ ''s'')
                        | _ \<Rightarrow> Inl TypeError),
      int_to_float = (\<lambda>n. None),
      parse_float = (\<lambda>s. None),
      times100_round2 = (\<lambda>w. w),
      float_repr = (\<lambda>w. ''0.0''),
      re_sub = (\<lambda>r s t. Inl TypeError),
      getmtime = (\<lambda>v. Inl OSError),
      basename = (\<lambda>v. Inl TypeError),
      splitext = (\<lambda>v. Inl TypeError),
      dirname = (\<lambda>v. Inl TypeError),
      json_dumps = (\<lambda>v. Inl TypeError)\<rparr>"

definition item_5b :: item where
  "item_5b = [''size'' \<mapsto> PInt 5, ''name'' \<mapsto> PStr ''b'']"

definition item_3z :: item where
  "item_3z = [''size'' \<mapsto> PInt 3, ''name'' \<mapsto> PStr ''z'']"

text \<open>
  A stand-in for Tempita: the template text is the name of one variable, and the
  expansion shows what that name is bound to.
\<close>

definition sample_engines :: engines where
  "sample_engines =
     \<lparr>custom_template_helpers = NsObject 0,
      templating_preparse = (\<lambda>t. Inr t),
      tempita_substitute = (\<lambda>t vars. case vars t of
                              None \<Rightarrow> Inl (NameError t)
                            | Some (NsVal v) \<Rightarrow> Inr (py_str sample_ext v)
                            | Some _ \<Rightarrow> Inr ''<object>''),
      jinja2_render = (\<lambda>t it. Inl NotModelled)\<rparr>"

section \<open>Reference formulations\<close>

text \<open>
  The format spec \<open>field.f1.f2...fn\<close> written from its parts: the field name followed
  by each formatter name behind a dot.
\<close>

definition dotted_spec :: "string \<Rightarrow> string list \<Rightarrow> string" where
  "dotted_spec key names = key @ concat (map (\<lambda>n. CHR ''.'' # n) names)"

text \<open>
  Applying a list of formatters from left to right: the first one gets the raw value,
  each later one the result of its predecessor, and the first exception ends the run.
\<close>

fun apply_in_order :: "(pyval \<Rightarrow> pyerr + pyval) list \<Rightarrow> pyval \<Rightarrow> pyerr + pyval" where
  "apply_in_order [] val = Inr val"
| "apply_in_order (f # fs) val = and_then (f val) (apply_in_order fs)"

text \<open>
  What the caller of the adapter sees of a formatting result: one of the five handled
  exceptions comes out as the aggregated error with field name and raw value.
\<close>

definition aggregated :: "string \<Rightarrow> pyval \<Rightarrow> pyerr + pyval \<Rightarrow> pyerr + pyval" where
  "aggregated key val r =
     (case r of
        Inr v \<Rightarrow> Inr v
      | Inl exc \<Rightarrow> (if caught exc then Inl (LoggableError key val exc) else Inl exc))"

text \<open>
  The intrinsic step of a key: the formatter of its registered field, if the key is
  registered and the field has one.
\<close>

definition intrinsic :: "registry \<Rightarrow> string \<Rightarrow> (pyval \<Rightarrow> pyerr + pyval) list" where
  "intrinsic reg key =
     (case lookup_field reg key of
        None \<Rightarrow> []
      | Some field \<Rightarrow> (case formatter_of field of None \<Rightarrow> [] | Some ff \<Rightarrow> [ff]))"

text \<open>The optional \<open>raw\<close> marker in front of the formatter names.\<close>

definition with_raw :: "bool \<Rightarrow> string list \<Rightarrow> string list" where
  "with_raw raw names = (if raw then ''raw'' # names else names)"

text \<open>A key the adapter accepts: registered, among the defaults, or a manifold attribute.\<close>

definition known_key :: "registry \<Rightarrow> pydict \<Rightarrow> string \<Rightarrow> bool" where
  "known_key reg dflts key =
     (lookup_field reg key \<noteq> None \<or> map_of dflts key \<noteq> None \<or> add_manifold_attribute reg key)"

section \<open>Auxiliary facts\<close>

lemma and_then_assoc: "and_then (and_then r f) g = and_then r (\<lambda>v. and_then (f v) g)"
  by (cases r) simp_all

lemma and_then_unit: "and_then r (apply_in_order []) = r"
  by (cases r) simp_all

lemma split_on_nonempty: "split_on c r \<noteq> []"
  by (induction r) (auto simp: Let_def)

lemma split_on_prefix:
  "c \<notin> set n \<Longrightarrow> split_on c (n @ r) = (n @ hd (split_on c r)) # tl (split_on c r)"
  using split_on_nonempty[of c r] by (induction n) (auto simp: Let_def)

lemma split_on_dotted:
  "\<forall>n \<in> set (n0 # ns). CHR ''.'' \<notin> set n \<Longrightarrow>
   split_on (CHR ''.'') (n0 @ concat (map (\<lambda>n. CHR ''.'' # n) ns)) = n0 # ns"
proof (induction ns arbitrary: n0)
  case Nil
  then show ?case using split_on_prefix[of "CHR ''.''" n0 "[]"] by simp
next
  case (Cons m ms)
  have "split_on (CHR ''.'') (m @ concat (map (\<lambda>n. CHR ''.'' # n) ms)) = m # ms"
    using Cons.prems by (intro Cons.IH) simp
  then show ?case using Cons.prems by (simp add: split_on_prefix)
qed

lemma split_first_dot_dotted:
  "\<not> has_dot key \<Longrightarrow> split_first_dot (key @ CHR ''.'' # r) = (key, r)"
  by (induction key) (auto simp: split_first_dot_def has_dot_def)

lemma has_dot_dotted:
  "\<not> has_dot key \<Longrightarrow> has_dot (dotted_spec key names) = (names \<noteq> [])"
  by (cases names) (auto simp: has_dot_def dotted_spec_def)

lemma apply_in_order_Cons_fun:
  "apply_in_order (f # fs) = (\<lambda>v. and_then (f v) (apply_in_order fs))"
  by (rule ext) simp

lemma compose_step:
  "apply_in_order ((case fo of Some k \<Rightarrow> (\<lambda>val. and_then (k val) (call1 f)) | None \<Rightarrow> call1 f) # gs)
     = apply_in_order ((case fo of None \<Rightarrow> [] | Some k \<Rightarrow> [k]) @ call1 f # gs)"
  by (cases fo) (simp_all add: apply_in_order_Cons_fun and_then_assoc)

lemma compose_single:
  "(case fo of Some k \<Rightarrow> (\<lambda>val. and_then (k val) (call1 f)) | None \<Rightarrow> call1 f)
     = apply_in_order ((case fo of None \<Rightarrow> [] | Some k \<Rightarrow> [k]) @ [call1 f])"
proof -
  have single: "apply_in_order [g] = g" for g
    by (rule ext) (simp add: and_then_unit)
  show ?thesis
    using compose_step[where fo = fo and f = f and gs = "[]"] by (simp only: single)
qed

lemma build_chain_ok:
  "map (map_of (fmt_globals x)) names = map Some fs \<Longrightarrow>
   build_chain x key names fo =
     Inr (if names = [] then fo
          else Some (apply_in_order ((case fo of None \<Rightarrow> [] | Some k \<Rightarrow> [k]) @ map call1 fs)))"
proof (induction names arbitrary: fo fs)
  case Nil
  then show ?case by simp
next
  case (Cons n rest)
  then obtain f fs' where fs: "fs = f # fs'" and f: "map_of (fmt_globals x) n = Some f"
    and rest: "map (map_of (fmt_globals x)) rest = map Some fs'"
    by (cases fs) auto
  show ?case
  proof (cases "rest = []")
    case True
    with rest have "fs' = []" by simp
    with True f show ?thesis by (simp add: fs compose_single)
  next
    case False
    then show ?thesis
      using Cons.IH[OF rest] f by (simp add: fs compose_step)
  qed
qed


lemma raw_not_in_catalog: "map_of (fmt_globals x) ''raw'' = None"
  by (simp add: fmt_globals_def)

lemma parse_key_dotted:
  assumes "\<not> has_dot key" and "\<forall>n \<in> set names. \<not> has_dot n"
    and "map (map_of (fmt_globals x)) names = map Some fs"
  shows "parse_key x (dotted_spec key (with_raw raw names)) =
           (key, raw, Inr (if names = [] then None else Some (apply_in_order (map call1 fs))))"
proof (cases "with_raw raw names")
  case Nil
  then have "\<not> raw" "names = []" by (auto simp: with_raw_def split: if_splits)
  then show ?thesis using assms(1) by (simp add: parse_key_def dotted_spec_def with_raw_def)
next
  case (Cons m ms)
  have nodots: "\<forall>n \<in> set (m # ms). CHR ''.'' \<notin> set n"
    using assms(2) Cons[symmetric] by (auto simp: with_raw_def has_dot_def split: if_splits)
  have spec: "dotted_spec key (with_raw raw names) = key @ CHR ''.'' # (m @ concat (map (\<lambda>n. CHR ''.'' # n) ms))"
    by (simp add: dotted_spec_def Cons)
  have dot: "has_dot (dotted_spec key (with_raw raw names))"
    by (simp add: spec has_dot_def)
  have parts: "split_on (CHR ''.'') (snd (split_first_dot (dotted_spec key (with_raw raw names)))) = m # ms"
    and key: "fst (split_first_dot (dotted_spec key (with_raw raw names))) = key"
    using nodots by (simp_all add: spec split_first_dot_dotted[OF assms(1)] split_on_dotted)
  have general: "parse_key x (dotted_spec key (with_raw raw names)) =
      (key, m = ''raw'', build_chain x key (if m = ''raw'' then ms else m # ms) None)"
    using dot by (simp add: parse_key_def parts key)
  show ?thesis
  proof (cases raw)
    case True
    then have "m = ''raw''" "ms = names" using Cons by (simp_all add: with_raw_def)
    then show ?thesis
      unfolding general using True by (simp add: build_chain_ok[OF assms(3)])
  next
    case False
    then have names: "names = m # ms" using Cons by (simp add: with_raw_def)
    then have "map_of (fmt_globals x) m \<noteq> None" using assms(3) by (cases fs) auto
    then have "m \<noteq> ''raw''" using raw_not_in_catalog[of x] by auto
    then show ?thesis
      unfolding general using False names build_chain_ok[OF assms(3), of key None] by simp
  qed
qed

lemma field_formatter_dotted:
  assumes "known_key reg dflts key" and "length fs = length names"
  shows "field_formatter reg dflts key raw
           (if names = [] then None else Some (apply_in_order (map call1 fs))) =
         Inr (if (if raw then [] else intrinsic reg key) @ map call1 fs = [] then None
              else Some (apply_in_order ((if raw then [] else intrinsic reg key) @ map call1 fs)))"
proof -
  have single: "apply_in_order [g] = g" for g
    by (rule ext) (simp add: and_then_unit)
  show ?thesis
    using assms
    by (cases names)
       (auto simp: field_formatter_def known_key_def intrinsic_def single apply_in_order_Cons_fun
             and_then_unit split: option.splits)
qed

lemma render_value_chain:
  "ob key = Some val \<Longrightarrow>
   render_value (Some ob) dflts key (if gs = [] then None else Some (apply_in_order gs)) =
     aggregated key val (apply_in_order gs val)"
  by (simp add: render_value_def aggregated_def split: sum.splits)

lemma getitem_value_dotted:
  assumes "\<not> has_dot key" and "\<forall>n \<in> set names. \<not> has_dot n"
    and "map (map_of (fmt_globals x)) names = map Some fs"
    and "known_key reg dflts key" and "ob key = Some val"
  shows "getitem reg x (Some ob) dflts (dotted_spec key (with_raw raw names)) =
           aggregated key val
             (apply_in_order ((if raw then [] else intrinsic reg key) @ map call1 fs) val)"
proof -
  have len: "length fs = length names"
    using assms(3) by (metis length_map)
  note p = parse_key_dotted[OF assms(1-3)]
  note f = field_formatter_dotted[OF assms(4) len]
  note r = render_value_chain[where ob = ob and key = key and val = val, OF assms(5)]
  show ?thesis
    by (simp only: getitem_def p f r prod.case sum.case)
qed

lemma getitem_header_dotted:
  assumes "\<not> has_dot key" and "\<forall>n \<in> set names. \<not> has_dot n"
    and "map (map_of (fmt_globals x)) names = map Some fs"
    and "known_key reg dflts key"
  shows "getitem reg x None dflts (dotted_spec key (with_raw raw names)) =
           Inr (PStr (if key = ''pc'' then ''%'' else upper key))"
proof -
  have len: "length fs = length names"
    using assms(3) by (metis length_map)
  show ?thesis
    unfolding getitem_def parse_key_dotted[OF assms(1-3)]
    by (simp add: field_formatter_dotted[OF assms(4) len] render_value_def)
qed

section \<open>The sort key and the field list\<close>

lemma validate_field_list_returns_argument:
  "fst (validate_field_list reg flds allow nf st) = Inr r \<Longrightarrow> r = flds"
  by (auto simp: validate_field_list_def Let_def split: fields_arg.splits option.splits prod.splits)

text \<open>
  Claim C1: for the sort spec \<open>-size name\<close> the comparator orders items by \<open>size\<close>
  descending, then by \<open>name\<close> ascending. In the code \<open>validate_field_list\<close> hands the
  string \<open>-size name\<close> itself back to \<open>validate_sort_fields\<close>, so \<open>Key.__lt__\<close> walks
  over its characters and asks the items for the attribute \<open>-\<close>: comparing the item of
  size 5 with the item of size 3 raises \<open>AttributeError\<close> instead of answering.
\<close>

theorem sort_key_minus_size_name_raises:
  "validate_sort_fields (sample_registry sample_ext) (FieldsStr ''-size name'')
     = Inr (Key (FieldsStr ''-size name'') {''size''})
   \<and> Key_lt (FieldsStr ''-size name'') {''size''} item_5b item_3z = Inl AttributeError"
  by (simp add: validate_sort_fields_def validate_field_list_def sample_registry_def split_ws_def
        replace_comma_def strip_def is_space_def sort_order_filter_def check_name_def
        lookup_field_def Key_lt_def item_5b_def item_3z_def)

text \<open>
  Claim C2: \<open>validate_field_list\<close> returns the field list with the names as rewritten
  by the \<open>name_filter\<close>. With \<open>sort_order_filter\<close> the names checked are \<open>size\<close> and
  \<open>name\<close> (\<open>size\<close> is recorded as descending), but the value returned is the argument
  \<open>-size name\<close>, untouched by the filter.
\<close>

theorem validate_field_list_keeps_unfiltered_names:
  "validate_field_list (sample_registry sample_ext) (FieldsStr ''-size name'') False
      (Some sort_order_filter) {}
     = (Inr (FieldsStr ''-size name''), {''size''})"
  by (simp add: validate_field_list_def sample_registry_def split_ws_def
        replace_comma_def strip_def is_space_def sort_order_filter_def check_name_def
        lookup_field_def)

section \<open>Placeholders of the catalog\<close>

text \<open>
  Claim C4, as amended: for the four formatters \<open>sz\<close>, \<open>iso\<close>, \<open>duration\<close> and \<open>delta\<close>,
  whenever the conversion raises a \<open>ValueError\<close> or a \<open>TypeError\<close> and the rendering of
  zero succeeds, the result is \<open>N/A\<close> right-justified to the length of that rendering
  of zero; so it is for the size formatter on \<open>None\<close>.
\<close>

theorem placeholder_on_value_or_type_error:
  "value_or_type_error e \<Longrightarrow>
   (human_size x v = Inl e \<and> human_size x (PInt 0) = Inr z
      \<longrightarrow> fmt_sz x v = Inr (PStr (rjust ''N/A'' (length z))))
   \<and> (iso_datetime x v = Inl e \<and> iso_datetime x (PInt 0) = Inr z
      \<longrightarrow> fmt_iso x v = Inr (PStr (rjust ''N/A'' (length z))))
   \<and> (and_then (py_float x v) (\<lambda>f. human_duration x (PFloat f) (PInt 0) 2 True) = Inl e
        \<and> human_duration x (PInt 0) (PInt 0) 2 True = Inr z
      \<longrightarrow> fmt_duration x v = Inr (PStr (rjust ''N/A'' (length z))))
   \<and> (and_then (py_float x v) (\<lambda>f. human_duration x (PFloat f) PNone 2 True) = Inl e
        \<and> human_duration x (PInt 0) PNone 2 True = Inr z
      \<longrightarrow> fmt_delta x v = Inr (PStr (rjust ''N/A'' (length z))))"
  by (simp add: fmt_sz_def fmt_iso_def fmt_duration_def fmt_delta_def)

text \<open>The size formatter on \<open>None\<close>, where sizes are rendered in ten characters.\<close>

theorem placeholder_on_value_or_type_error_witness:
  "value_or_type_error TypeError
   \<and> human_size sample_ext PNone = Inl TypeError
   \<and> human_size sample_ext (PInt 0) = Inr ''   0 bytes''
   \<and> fmt_sz sample_ext (PInt 0) = Inr (PStr ''   0 bytes'')
   \<and> fmt_sz sample_ext PNone = Inr (PStr ''       N/A'')"
proof -
  have e: "value_or_type_error TypeError" by (simp add: value_or_type_error_def)
  have b: "human_size sample_ext PNone = Inl TypeError" by (simp add: sample_ext_def)
  have z: "human_size sample_ext (PInt 0) = Inr ''   0 bytes''" by code_simp
  have s: "fmt_sz sample_ext (PInt 0) = Inr (PStr ''   0 bytes'')" by code_simp
  have "fmt_sz sample_ext PNone = Inr (PStr (rjust ''N/A'' (length ''   0 bytes'')))"
    using placeholder_on_value_or_type_error[OF e, of sample_ext PNone "''   0 bytes''"] b z
    by simp
  moreover have "rjust ''N/A'' (length ''   0 bytes'') = ''       N/A''" by code_simp
  ultimately show ?thesis using e b z s by simp
qed

text \<open>
  Claim C4 as stated fails for the percentage formatter, which has no handler: on
  \<open>None\<close> the \<open>TypeError\<close> of \<open>float(None)\<close> reaches the caller.
\<close>

theorem fmt_pc_none_escapes: "fmt_pc sample_ext PNone = Inl TypeError"
  by (simp add: fmt_pc_def)

section \<open>The output adapter: chains, headers and failures\<close>

lemma in_catalog_nodot: "map_of (fmt_globals x) n = Some f \<Longrightarrow> \<not> has_dot n"
  by (auto simp: fmt_globals_def has_dot_def split: if_splits)

lemma catalog_nodots:
  "map (map_of (fmt_globals x)) names = map Some fs \<Longrightarrow> \<forall>n \<in> set names. \<not> has_dot n"
proof (induction names arbitrary: fs)
  case Nil
  then show ?case by simp
next
  case (Cons n ns)
  then obtain f fs' where "map_of (fmt_globals x) n = Some f"
    "map (map_of (fmt_globals x)) ns = map Some fs'"
    by (cases fs) auto
  then show ?case using Cons.IH in_catalog_nodot by auto
qed

lemma catalog_functions:
  "set names \<subseteq> set formats \<Longrightarrow> \<exists>fs. map (map_of (fmt_globals x)) names = map Some fs"
proof (induction names)
  case Nil
  then show ?case by simp
next
  case (Cons n ns)
  then obtain fs where fs: "map (map_of (fmt_globals x)) ns = map Some fs" by auto
  have "n \<in> set formats" using Cons.prems by simp
  then obtain f where "map_of (fmt_globals x) n = Some f"
    by (auto simp: formats_def fmt_globals_def)
  then have "map (map_of (fmt_globals x)) (n # ns) = map Some (f # fs)" using fs by simp
  then show ?case by blast
qed

lemma setdefault_has_key: "map_of (setdefault d k v) k \<noteq> None"
  by (auto simp: setdefault_def map_add_def split: option.splits)

lemma init_object_and_pc:
  assumes "OutputMapping_init obj dflts store = (self, store')"
    and "case dflts of None \<Rightarrow> True | Some d \<Rightarrow> d < length store"
  shows "om_obj self = obj \<and> map_of (store' ! om_defaults self) ''pc'' \<noteq> None"
  using assms setdefault_has_key
  by (auto simp: OutputMapping_init_def Let_def nth_append split: option.splits if_splits)

text \<open>
  Claim C6: for a spec \<open>field.f1.f2...fn\<close> resolved against an item, the field's own
  formatter, when there is one and \<open>raw\<close> is not given, is applied first to the raw
  value, and the named formatters \<open>f1\<close> to \<open>fn\<close> then from left to right; with
  \<open>raw\<close> in front only the field's own step is left out. The result is what
  \<open>apply_in_order\<close> computes on that list of steps.
\<close>

theorem formatter_chain_order:
  assumes "\<not> has_dot key"
    and "map (map_of (fmt_globals x)) names = map Some fs"
    and "known_key reg dflts key"
    and "ob key = Some val"
  shows "getitem reg x (Some ob) dflts (dotted_spec key names) =
           aggregated key val (apply_in_order (intrinsic reg key @ map call1 fs) val)
       \<and> getitem reg x (Some ob) dflts (dotted_spec key (''raw'' # names)) =
           aggregated key val (apply_in_order (map call1 fs) val)"
  using getitem_value_dotted[where ob = ob and val = val and raw = False,
          OF assms(1) catalog_nodots[OF assms(2)] assms(2-4)]
    getitem_value_dotted[where ob = ob and val = val and raw = True,
          OF assms(1) catalog_nodots[OF assms(2)] assms(2-4)]
  by (simp add: with_raw_def)

text \<open>
  With the size field: \<open>size.strip\<close> renders the size and trims it,
  \<open>size.raw.strip\<close> trims the number, and \<open>size.strip.sz\<close> hands the trimmed text to
  the size formatter, which answers with its placeholder.
\<close>

theorem formatter_chain_order_witness:
  "getitem (sample_registry sample_ext) sample_ext (Some item_5b) [] (dotted_spec ''size'' [''strip''])
     = Inr (PStr ''5 bytes'')
   \<and> getitem (sample_registry sample_ext) sample_ext (Some item_5b) [] (dotted_spec ''size'' [''raw'', ''strip''])
     = Inr (PStr ''5'')
   \<and> getitem (sample_registry sample_ext) sample_ext (Some item_5b) [] (dotted_spec ''size'' [''strip'', ''sz''])
     = Inr (PStr ''       N/A'')"
proof -
  have k: "\<not> has_dot ''size''" by (simp add: has_dot_def)
  have c: "map (map_of (fmt_globals sample_ext)) [''strip''] = map Some [Fn1 (fmt_strip sample_ext)]"
    by (simp add: fmt_globals_def)
  have c2: "map (map_of (fmt_globals sample_ext)) [''strip'', ''sz'']
      = map Some [Fn1 (fmt_strip sample_ext), Fn1 (fmt_sz sample_ext)]"
    by (simp add: fmt_globals_def)
  have r: "known_key (sample_registry sample_ext) [] ''size''"
    by (simp add: known_key_def lookup_field_def sample_registry_def)
  have v: "item_5b ''size'' = Some (PInt 5)" by (simp add: item_5b_def)
  note t = formatter_chain_order[where ob = item_5b and val = "PInt 5", OF k c r v]
  note t2 = formatter_chain_order[where ob = item_5b and val = "PInt 5", OF k c2 r v]
  have e1: "aggregated ''size'' (PInt 5)
      (apply_in_order (intrinsic (sample_registry sample_ext) ''size'' @ map call1 [Fn1 (fmt_strip sample_ext)]) (PInt 5))
      = Inr (PStr ''5 bytes'')" by code_simp
  have e2: "aggregated ''size'' (PInt 5) (apply_in_order (map call1 [Fn1 (fmt_strip sample_ext)]) (PInt 5))
      = Inr (PStr ''5'')" by code_simp
  have e3: "aggregated ''size'' (PInt 5)
      (apply_in_order (intrinsic (sample_registry sample_ext) ''size''
         @ map call1 [Fn1 (fmt_strip sample_ext), Fn1 (fmt_sz sample_ext)]) (PInt 5))
      = Inr (PStr ''       N/A'')" by code_simp
  show ?thesis using t t2 by (simp only: e1 e2 e3)
qed

text \<open>
  Claim C7, as amended: when the formatter chain raises a \<open>TypeError\<close>,
  \<open>ValueError\<close>, \<open>KeyError\<close>, \<open>IndexError\<close> or \<open>AttributeError\<close>, resolution raises
  one \<open>LoggableError\<close> that carries the field name and the raw value; any other
  exception of the chain reaches the caller as it is.
\<close>

theorem chain_failure_is_aggregated:
  assumes "\<not> has_dot key"
    and "map (map_of (fmt_globals x)) names = map Some fs"
    and "known_key reg dflts key"
    and "ob key = Some val"
    and "apply_in_order ((if raw then [] else intrinsic reg key) @ map call1 fs) val = Inl exc"
  shows "getitem reg x (Some ob) dflts (dotted_spec key (with_raw raw names)) =
           (if caught exc then Inl (LoggableError key val exc) else Inl exc)"
  using getitem_value_dotted[where ob = ob and val = val and raw = raw,
          OF assms(1) catalog_nodots[OF assms(2)] assms(2-4)] assms(5)
  by (simp add: aggregated_def)

text \<open>
  The percentage formatter on the name \<open>b\<close>: the \<open>ValueError\<close> of \<open>float("b")\<close> is
  reported for the field \<open>name\<close> and the value \<open>b\<close>.
\<close>

theorem chain_failure_is_aggregated_witness:
  "getitem (sample_registry sample_ext) sample_ext (Some item_5b) [] (dotted_spec ''name'' (with_raw False [''pc'']))
     = Inl (LoggableError ''name'' (PStr ''b'') ValueError)"
proof -
  have k: "\<not> has_dot ''name''" by (simp add: has_dot_def)
  have c: "map (map_of (fmt_globals sample_ext)) [''pc''] = map Some [Fn1 (fmt_pc sample_ext)]"
    by (simp add: fmt_globals_def)
  have r: "known_key (sample_registry sample_ext) [] ''name''"
    by (simp add: known_key_def lookup_field_def sample_registry_def)
  have v: "item_5b ''name'' = Some (PStr ''b'')" by (simp add: item_5b_def)
  have e: "apply_in_order ((if False then [] else intrinsic (sample_registry sample_ext) ''name'')
      @ map call1 [Fn1 (fmt_pc sample_ext)]) (PStr ''b'') = Inl ValueError" by code_simp
  have "caught ValueError" by (simp add: caught_def)
  then show ?thesis
    using chain_failure_is_aggregated[where ob = item_5b and val = "PStr ''b''" and raw = False,
            OF k c r v e]
    by simp
qed

text \<open>
  Claim C7 as stated fails for an exception outside the handler's five: the
  \<open>OSError\<close> of \<open>mtime\<close> on a path that does not exist reaches the caller unwrapped.
\<close>

theorem mtime_oserror_escapes:
  "fmt_mtime sample_ext (PStr ''b'') = Inl OSError
   \<and> getitem (sample_registry sample_ext) sample_ext (Some item_5b) [] ''name.mtime'' = Inl OSError"
  by code_simp

text \<open>
  Claim C5, as amended: without a backing item, a spec whose field is registered
  resolves to the upper-cased field name, and the key \<open>pc\<close> to \<open>%\<close>, whatever the
  suffix of catalog formatter names (with or without \<open>raw\<close> in front) and whatever
  those formatters would do: the right-hand side does not depend on them.
\<close>

theorem header_label:
  assumes "OutputMapping_init None dflts store = (self, store')"
    and "case dflts of None \<Rightarrow> True | Some d \<Rightarrow> d < length store"
    and "\<not> has_dot key"
    and "set names \<subseteq> set formats"
    and "lookup_field reg key \<noteq> None \<or> key = ''pc''"
  shows "OutputMapping_getitem reg x self store' (dotted_spec key (with_raw raw names))
           = Inr (PStr (if key = ''pc'' then ''%'' else upper key))"
proof -
  obtain fs where fs: "map (map_of (fmt_globals x)) names = map Some fs"
    using catalog_functions[OF assms(4)] by blast
  have init: "om_obj self = None" "map_of (store' ! om_defaults self) ''pc'' \<noteq> None"
    using init_object_and_pc[OF assms(1,2)] by simp_all
  have known: "known_key reg (store' ! om_defaults self) key"
    using assms(5) init(2) by (auto simp: known_key_def)
  show ?thesis
    unfolding OutputMapping_getitem_def init(1)
    by (rule getitem_header_dotted[OF assms(3) catalog_nodots[OF fs] fs known])
qed

text \<open>
  The header of \<open>size.raw.sz.strip\<close> is \<open>SIZE\<close>, that of \<open>pc.json\<close> is \<open>%\<close>.
\<close>

theorem header_label_witness:
  "OutputMapping_init None None [] = (\<lparr>om_obj = None, om_defaults = 0\<rparr>, [[(''pc'', PStr ''%'')]])
   \<and> OutputMapping_getitem (sample_registry sample_ext) sample_ext \<lparr>om_obj = None, om_defaults = 0\<rparr>
        [[(''pc'', PStr ''%'')]] (dotted_spec ''size'' (with_raw True [''sz'', ''strip''])) = Inr (PStr ''SIZE'')
   \<and> OutputMapping_getitem (sample_registry sample_ext) sample_ext \<lparr>om_obj = None, om_defaults = 0\<rparr>
        [[(''pc'', PStr ''%'')]] (dotted_spec ''pc'' (with_raw False [''json''])) = Inr (PStr ''%'')"
proof -
  have i: "OutputMapping_init None None [] = (\<lparr>om_obj = None, om_defaults = 0\<rparr>, [[(''pc'', PStr ''%'')]])"
    by (simp add: OutputMapping_init_def setdefault_def)
  have a: "case None :: nat option of None \<Rightarrow> True | Some d \<Rightarrow> d < length ([] :: pydict list)" by simp
  have k: "\<not> has_dot ''size''" "\<not> has_dot ''pc''" by (simp_all add: has_dot_def)
  have n: "set [''sz'', ''strip''] \<subseteq> set formats" "set [''json''] \<subseteq> set formats"
    by (simp_all add: formats_def)
  have r: "lookup_field (sample_registry sample_ext) ''size'' \<noteq> None \<or> ''size'' = ''pc''"
    by (simp add: lookup_field_def sample_registry_def)
  have r2: "lookup_field (sample_registry sample_ext) ''pc'' \<noteq> None \<or> ''pc'' = ''pc''" by simp
  have u: "upper ''size'' = ''SIZE''" by code_simp
  show ?thesis
    using header_label[OF i a k(1) n(1) r, of sample_ext True]
      header_label[OF i a k(2) n(2) r2, of sample_ext False] i u
    by simp
qed

text \<open>
  Claim C5 as stated fails for a suffix that names no catalog formatter: the name is
  looked up before the header is returned, and \<open>size.bogus\<close> raises \<open>UserError\<close>.
\<close>

theorem header_unknown_formatter_raises:
  "OutputMapping_init None None [] = (\<lparr>om_obj = None, om_defaults = 0\<rparr>, [[(''pc'', PStr ''%'')]])
   \<and> OutputMapping_getitem (sample_registry sample_ext) sample_ext \<lparr>om_obj = None, om_defaults = 0\<rparr>
        [[(''pc'', PStr ''%'')]] ''size.bogus'' = Inl (UserError (UnknownFormattingSpec ''bogus'' ''size''))"
proof (rule conjI)
  show "OutputMapping_init None None [] = (\<lparr>om_obj = None, om_defaults = 0\<rparr>, [[(''pc'', PStr ''%'')]])"
    by (simp add: OutputMapping_init_def setdefault_def)
  show "OutputMapping_getitem (sample_registry sample_ext) sample_ext \<lparr>om_obj = None, om_defaults = 0\<rparr>
        [[(''pc'', PStr ''%'')]] ''size.bogus'' = Inl (UserError (UnknownFormattingSpec ''bogus'' ''size''))"
    by code_simp
qed

text \<open>
  Claim C10: constructing the adapter with a caller's non-empty \<open>defaults\<close> keeps
  that very dictionary (the adapter's \<open>defaults\<close> is the caller's address), and the
  store changes at that address only: \<open>pc\<close> is appended with the value \<open>%\<close> when the
  key is absent, and the dictionary stays as it is when the key is present.
\<close>

theorem init_inserts_pc_in_place:
  assumes "d < length store" and "store ! d \<noteq> []"
  shows "OutputMapping_init obj (Some d) store =
           (\<lparr>om_obj = obj, om_defaults = d\<rparr>,
            store[d := (if map_of (store ! d) ''pc'' = None
                        then store ! d @ [(''pc'', PStr ''%'')] else store ! d)])"
  using assms by (simp add: OutputMapping_init_def setdefault_def)

text \<open>
  A caller's dictionary without \<open>pc\<close> beside another dictionary, and one that has
  \<open>pc\<close> already.
\<close>

theorem init_inserts_pc_in_place_witness:
  "OutputMapping_init None (Some 1) [[(''x'', PInt 0)], [(''a'', PInt 1)]]
     = (\<lparr>om_obj = None, om_defaults = 1\<rparr>, [[(''x'', PInt 0)], [(''a'', PInt 1), (''pc'', PStr ''%'')]])
   \<and> OutputMapping_init None (Some 0) [[(''pc'', PStr ''percent'')]]
     = (\<lparr>om_obj = None, om_defaults = 0\<rparr>, [[(''pc'', PStr ''percent'')]])"
proof -
  have a: "(1::nat) < length [[(''x'', PInt 0)], [(''a'', PInt 1)]]"
    "[[(''x'', PInt 0)], [(''a'', PInt 1)]] ! 1 \<noteq> []" by simp_all
  have b: "(0::nat) < length [[(''pc'', PStr ''percent'')]]"
    "[[(''pc'', PStr ''percent'')]] ! 0 \<noteq> []" by simp_all
  show ?thesis
    using init_inserts_pc_in_place[OF a, of None] init_inserts_pc_in_place[OF b, of None]
    by simp
qed

section \<open>Header rendering by interpolation\<close>

text \<open>
  The pieces of a header render: what \<open>%\<close> does with two directives on the label
  of \<open>size\<close>, the label itself, and a fresh adapter. The format \<open>%(size)5d\<close> is
  rewritten to \<open>%(size)s\<close> and renders as \<open>SIZE\<close>.
\<close>

lemma multi_flag_directive_type_error:
  "lk ''size'' = Inr (PStr label) \<Longrightarrow> percent_format lk x ''%(size)-+5d'' = Inl TypeError"
  by (simp add: format_directive_def parse_rest_def render_directive_def is_percent_flag_def
        is_digit_def in_range_def number_of_def Let_def)

lemma string_directive_label:
  "lk ''size'' = Inr (PStr label) \<Longrightarrow> percent_format lk x ''%(size)s'' = Inr label"
  by (simp add: format_directive_def parse_rest_def render_directive_def is_percent_flag_def
        is_digit_def in_range_def number_of_def pad_text_def Let_def)

lemma header_lookup_size:
  "OutputMapping_getitem (sample_registry sample_ext) sample_ext \<lparr>om_obj = None, om_defaults = 0\<rparr>
     [[(''pc'', PStr ''%'')]] ''size'' = Inr (PStr ''SIZE'')"
  by code_simp

lemma init_fresh_defaults:
  "OutputMapping_init None None [] = (\<lparr>om_obj = None, om_defaults = 0\<rparr>, [[(''pc'', PStr ''%'')]])"
  by (simp add: OutputMapping_init_def setdefault_def)

lemma header_numeric_directive_rendered:
  "format_item (sample_registry sample_ext) sample_ext eng (SpecStr ''%(size)5d'') None None []
     = (Inr ''SIZE'', [[(''pc'', PStr ''%'')]])"
proof -
  have hs: "header_sub ''%(size)5d'' = ''%(size)s''" by code_simp
  show ?thesis
    by (simp del: header_sub.simps percent_format.simps
          add: format_item_def hs init_fresh_defaults
          string_directive_label[where lk = "OutputMapping_getitem (sample_registry sample_ext) sample_ext
                  \<lparr>om_obj = None, om_defaults = 0\<rparr> [[(''pc'', PStr ''%'')]]"
            and label = "''SIZE''", OF header_lookup_size])
qed

text \<open>
  Claim C8: in header mode every numeric directive is rewritten to a string
  directive, so that rendering never raises a type error. The pattern of the rewrite
  admits one flag character only: \<open>%(size)-+5d\<close>, left-justified with a sign, is left
  as it is, and \<open>%d\<close> applied to the label \<open>SIZE\<close> raises \<open>TypeError\<close>.
\<close>

theorem header_multi_flag_directive_raises:
  "header_sub ''%(size)-+5d'' = ''%(size)-+5d''
   \<and> fst (format_item (sample_registry sample_ext) sample_ext sample_engines
            (SpecStr ''%(size)-+5d'') None None []) = Inl TypeError"
proof -
  have hs: "header_sub ''%(size)-+5d'' = ''%(size)-+5d''" by code_simp
  show ?thesis
    by (simp del: header_sub.simps percent_format.simps
          add: format_item_def hs init_fresh_defaults
          multi_flag_directive_type_error[where lk = "OutputMapping_getitem (sample_registry sample_ext) sample_ext
                  \<lparr>om_obj = None, om_defaults = 0\<rparr> [[(''pc'', PStr ''%'')]]"
            and label = "''SIZE''", OF header_lookup_size])
qed

section \<open>Precedence in the template namespace\<close>

text \<open>
  Claim C9: in the namespace of a Tempita expansion a variable supplied by the
  caller wins over every predefined entry of the same name, the catalog formatters
  included.
\<close>

theorem caller_variables_take_precedence:
  "namespace name = Some v \<Longrightarrow> template_variables eng x namespace name = Some v"
  by (simp add: template_variables_def)

text \<open>
  The name \<open>sz\<close> is a catalog formatter; with the caller's \<open>sz\<close> the expansion shows
  the caller's value, without it the function.
\<close>

theorem caller_variables_take_precedence_witness:
  "map_of (formatters sample_ext) ''sz'' = Some (NsFn (Fn1 (fmt_sz sample_ext)))
   \<and> template_variables sample_engines sample_ext [''sz'' \<mapsto> NsVal (PStr ''mine'')] ''sz''
       = Some (NsVal (PStr ''mine''))
   \<and> expand_template sample_engines sample_ext ''sz'' [''sz'' \<mapsto> NsVal (PStr ''mine'')] = Inr ''mine''
   \<and> expand_template sample_engines sample_ext ''sz'' Map.empty = Inr ''<object>''"
proof -
  have n: "[''sz'' \<mapsto> NsVal (PStr ''mine'')] ''sz'' = Some (NsVal (PStr ''mine''))" by simp
  have f: "map_of (formatters sample_ext) ''sz'' = Some (NsFn (Fn1 (fmt_sz sample_ext)))"
    by (simp add: formatters_def fmt_globals_def)
  have pre: "templating_preparse sample_engines tpl = Inr tpl" for tpl
    by (simp add: sample_engines_def)
  have sub: "tempita_substitute sample_engines tpl vars =
      (case vars tpl of
         None \<Rightarrow> Inl (NameError tpl)
       | Some (NsVal v) \<Rightarrow> Inr (py_str sample_ext v)
       | Some _ \<Rightarrow> Inr ''<object>'')" for tpl vars
    by (simp add: sample_engines_def)
  have t: "template_variables sample_engines sample_ext [''sz'' \<mapsto> NsVal (PStr ''mine'')] ''sz''
      = Some (NsVal (PStr ''mine''))"
    by (rule caller_variables_take_precedence[where namespace = "[''sz'' \<mapsto> NsVal (PStr ''mine'')]"
          and name = "''sz''", OF n])
  have e: "expand_template sample_engines sample_ext ''sz'' [''sz'' \<mapsto> NsVal (PStr ''mine'')] = Inr ''mine''"
    by (simp add: expand_template_def t pre sub)
  have e0: "expand_template sample_engines sample_ext ''sz'' Map.empty = Inr ''<object>''"
    by (simp add: expand_template_def template_variables_def sample_engines_def formatters_def
          fmt_globals_def)
  show ?thesis using f t e e0 by simp
qed

section \<open>The mover\<close>

text \<open>
  The weights are the big-endian numbers of the digests and come out in ascending
  order, and the loop, given its item, passes the hosts that hold the hash and moves
  to the first that does not.
\<close>

lemma nodes_by_hash_weight_sorted:
  "sorted (map snd (nodes_by_hash_weight sha256 meta_id nodes))"
  by (simp add: nodes_by_hash_weight_def)

lemma dict_set_entries:
  "(n, w) \<in> set (dict_set d k v) \<Longrightarrow> (n, w) \<in> set d \<or> (n, w) = (k, v)"
  by (induction d) (auto split: if_splits)

lemma weights_fold:
  "(n, w) \<in> set (foldl (\<lambda>d n. dict_set d n (f n)) d nodes) \<Longrightarrow>
   (n, w) \<in> set d \<or> (n \<in> set nodes \<and> w = f n)"
proof (induction nodes arbitrary: d)
  case Nil
  then show ?case by simp
next
  case (Cons a nodes)
  then have "(n, w) \<in> set (dict_set d a (f a)) \<or> (n \<in> set nodes \<and> w = f n)"
    by simp
  then show ?case using dict_set_entries[of n w d a "f a"] by auto
qed

lemma nodes_by_hash_weight_scores:
  "(n, w) \<in> set (nodes_by_hash_weight sha256 meta_id nodes) \<Longrightarrow>
   n \<in> set nodes \<and> w = from_bytes_big (sha256 (encode meta_id @ encode n))"
  using weights_fold[of n w "\<lambda>n. from_bytes_big (sha256 (encode meta_id @ encode n))" "[]" nodes]
  by (simp add: nodes_by_hash_weight_def)

lemma run_hosts_first_free:
  "run_hosts holds False i hs =
     map (AlreadyExists (t_hash i)) (takeWhile (\<lambda>h. holds h (t_hash i)) hs)
     @ (case dropWhile (\<lambda>h. holds h (t_hash i)) hs of [] \<Rightarrow> [] | h # _ \<Rightarrow> [MovedTo (t_hash i) h])"
  by (induction hs) auto

text \<open>
  Claim C3: the mover assigns the item to the lowest-scoring host that does not hold
  it. \<open>run_item\<close> reads the undefined name \<open>i\<close> instead of its parameter \<open>item\<close>;
  whatever the item, the hosts and their contents, it raises \<open>NameError\<close> before any
  host is scored.
\<close>

theorem run_item_name_error:
  "run_item sha256 cfg holds module_globals item = Inl (NameError ''i'')"
  by (simp add: run_item_def module_globals_def module_names_def)

end
